theory Spec2Isabelle
  imports Complex_Main
begin

section \<open>Python values\<close>

text \<open>
  The values \<^verbatim>\<open>json.loads\<close> produces. A Python \<^verbatim>\<open>dict\<close> is the list of its
  items in insertion order (its keys are distinct); \<^verbatim>\<open>None\<close> is \<open>JNull\<close>. A finite
  Python \<^verbatim>\<open>float\<close> is written as the real number it is, and a JSON value and a record
  hold finite floats; the arithmetic of floats is a parameter of the aggregator. A
  character is a code point below 256.
\<close>

datatype json =
    JNull
  | JBool bool
  | JInt int
  | JFloat real
  | JStr string
  | JList "json list"
  | JDict "(string \<times> json) list"

datatype exn_kind = ValueError | TypeError | AttributeError | FileNotFoundError | OtherException

text \<open>A raised exception: its class and \<^verbatim>\<open>str(e)\<close>.\<close>

datatype py_exn = PyExn (kind: exn_kind) (message: string)

text \<open>
  Library functions the code calls and this repository does not define:
  \<^verbatim>\<open>json.loads\<close> (\<open>Inl m\<close> is a \<^verbatim>\<open>JSONDecodeError\<close> with text \<open>m\<close>),
  \<^verbatim>\<open>float\<close> on a string (\<open>None\<close> is its \<^verbatim>\<open>ValueError\<close>) and \<^verbatim>\<open>str\<close> on a value
  that is not a string.
\<close>

record builtins =
  json_loads :: "string \<Rightarrow> string + json"
  float_of_str :: "string \<Rightarrow> real option"
  str_of :: "json \<Rightarrow> string"

definition is_list :: "json \<Rightarrow> bool" where
  "is_list v = (case v of JList _ \<Rightarrow> True | _ \<Rightarrow> False)"


text \<open>Truth value of a Python object, as \<^verbatim>\<open>if x\<close>, \<^verbatim>\<open>not x\<close> and \<^verbatim>\<open>bool(x)\<close> test it.\<close>

definition py_truthy :: "json \<Rightarrow> bool" where
  "py_truthy v =
     (case v of
        JNull \<Rightarrow> False
      | JBool b \<Rightarrow> b
      | JInt n \<Rightarrow> n \<noteq> 0
      | JFloat x \<Rightarrow> x \<noteq> 0
      | JStr s \<Rightarrow> s \<noteq> []
      | JList xs \<Rightarrow> xs \<noteq> []
      | JDict d \<Rightarrow> d \<noteq> [])"

text \<open>\<^verbatim>\<open>d.get(k, default)\<close> and \<^verbatim>\<open>k in d\<close>.\<close>

definition dict_get :: "(string \<times> json) list \<Rightarrow> string \<Rightarrow> json \<Rightarrow> json" where
  "dict_get d k dflt = (case map_of d k of Some v \<Rightarrow> v | None \<Rightarrow> dflt)"

definition has_key :: "(string \<times> json) list \<Rightarrow> string \<Rightarrow> bool" where
  "has_key d k = (map_of d k \<noteq> None)"

text \<open>\<^verbatim>\<open>str.isspace\<close>, \<^verbatim>\<open>str.strip()\<close> and \<^verbatim>\<open>str.lower()\<close> on code points below 256.\<close>

definition is_space :: "char \<Rightarrow> bool" where
  "is_space c =
     (let n = (of_char c :: nat)
      in (9 \<le> n \<and> n \<le> 13) \<or> (28 \<le> n \<and> n \<le> 32) \<or> n = 133 \<or> n = 160)"

definition strip :: "string \<Rightarrow> string" where
  "strip s = rev (dropWhile is_space (rev (dropWhile is_space s)))"

definition lower_char :: "char \<Rightarrow> char" where
  "lower_char c =
     (let n = (of_char c :: nat)
      in if (65 \<le> n \<and> n \<le> 90) \<or> (192 \<le> n \<and> n \<le> 222 \<and> n \<noteq> 215)
         then char_of (n + 32) else c)"

definition lower :: "string \<Rightarrow> string" where
  "lower s = map lower_char s"

text \<open>\<^verbatim>\<open>str(x)\<close>: a string is itself.\<close>

definition py_str :: "builtins \<Rightarrow> json \<Rightarrow> string" where
  "py_str B v = (case v of JStr s \<Rightarrow> s | _ \<Rightarrow> str_of B v)"

text \<open>
  \<^verbatim>\<open>float(x)\<close>: numbers and booleans convert, a string is parsed or raises
  \<^verbatim>\<open>ValueError\<close>, \<^verbatim>\<open>None\<close>, lists and dicts raise \<^verbatim>\<open>TypeError\<close>. (Python raises
  \<^verbatim>\<open>OverflowError\<close> on an integer beyond the range of a float; the reals have no such
  bound.)
\<close>

definition py_float :: "builtins \<Rightarrow> json \<Rightarrow> py_exn + real" where
  "py_float B v =
     (case v of
        JFloat x \<Rightarrow> Inr x
      | JInt n \<Rightarrow> Inr (of_int n)
      | JBool b \<Rightarrow> Inr (if b then 1 else 0)
      | JStr s \<Rightarrow>
          (case float_of_str B s of
             Some x \<Rightarrow> Inr x
           | None \<Rightarrow> Inl (PyExn ValueError (''could not convert string to float: '' @ s)))
      | _ \<Rightarrow> Inl (PyExn TypeError ''float() argument must be a string or a real number''))"

section \<open>Response normalizer\<close>

text \<open>The field \<^verbatim>\<open>notes\<close> is \<open>item_notes\<close>; \<^verbatim>\<open>None\<close> in an optional field is \<open>JNull\<close>.\<close>

record line_item =
  code :: string
  description :: string
  quantity :: real
  price :: real
  item_notes :: json

record analysis_item = line_item +
  expected_cost :: real
  overcharge_flag :: bool
  flag_level :: string
  issue :: json

text \<open>\<^verbatim>\<open>item.get(k) if item.get(k) else None\<close>\<close>

definition optional_field :: "(string \<times> json) list \<Rightarrow> string \<Rightarrow> json" where
  "optional_field item k = (if py_truthy (dict_get item k JNull) then dict_get item k JNull else JNull)"

text \<open>\<^verbatim>\<open>next((v for v in parsed.values() if isinstance(v, list)), [])\<close>\<close>

definition first_list_value :: "(string \<times> json) list \<Rightarrow> json" where
  "first_list_value parsed =
     (case find is_list (map snd parsed) of Some v \<Rightarrow> v | None \<Rightarrow> JList [])"

text \<open>The unwrapping of \<^verbatim>\<open>extraction_agent\<close> (lines 114 to 127).\<close>

definition extraction_unwrap :: "json \<Rightarrow> json" where
  "extraction_unwrap parsed =
     (case parsed of
        JDict d \<Rightarrow>
          if has_key d ''line_items'' then dict_get d ''line_items'' JNull
          else if has_key d ''items'' then dict_get d ''items'' JNull
          else if length d = 1 then snd (hd d)
          else first_list_value d
      | _ \<Rightarrow> parsed)"

text \<open>The unwrapping of \<^verbatim>\<open>analysis_agent\<close> (lines 127 to 139).\<close>

definition analysis_unwrap :: "json \<Rightarrow> json" where
  "analysis_unwrap parsed =
     (case parsed of
        JDict d \<Rightarrow>
          if has_key d ''line_items'' then dict_get d ''line_items'' JNull
          else if has_key d ''items'' then dict_get d ''items'' JNull
          else if has_key d ''analysis'' then dict_get d ''analysis'' JNull
          else if length d = 1 then snd (hd d)
          else first_list_value d
      | _ \<Rightarrow> parsed)"

text \<open>
  The dict literal of \<^verbatim>\<open>extraction_agent\<close> (lines 139 to 145); its entries are evaluated
  in order, so the first \<^verbatim>\<open>float\<close> that raises decides the exception.
\<close>

definition normalize_line_item :: "builtins \<Rightarrow> (string \<times> json) list \<Rightarrow> py_exn + line_item" where
  "normalize_line_item B item =
     (case py_float B (dict_get item ''quantity'' (JFloat 1)) of
        Inl e \<Rightarrow> Inl e
      | Inr q \<Rightarrow>
          (case py_float B (dict_get item ''price'' (JFloat 0)) of
             Inl e \<Rightarrow> Inl e
           | Inr p \<Rightarrow>
               Inr \<lparr> code = strip (py_str B (dict_get item ''code'' (JStr ''''))),
                     description = strip (py_str B (dict_get item ''description'' (JStr ''''))),
                     quantity = q,
                     price = p,
                     item_notes = optional_field item ''notes'' \<rparr>))"

text \<open>The dict literal of \<^verbatim>\<open>analysis_agent\<close> and the check of the flag level (lines 151 to 166).\<close>

definition normalize_analysis_item :: "builtins \<Rightarrow> (string \<times> json) list \<Rightarrow> py_exn + analysis_item" where
  "normalize_analysis_item B item =
     (case py_float B (dict_get item ''quantity'' (JFloat 1)) of
        Inl e \<Rightarrow> Inl e
      | Inr q \<Rightarrow>
          (case py_float B (dict_get item ''price'' (JFloat 0)) of
             Inl e \<Rightarrow> Inl e
           | Inr p \<Rightarrow>
               (case py_float B (dict_get item ''expected_cost'' (dict_get item ''price'' (JFloat 0))) of
                  Inl e \<Rightarrow> Inl e
                | Inr ec \<Rightarrow>
                    (let fl = lower (py_str B (dict_get item ''flag_level'' (JStr ''low'')))
                     in Inr \<lparr> code = strip (py_str B (dict_get item ''code'' (JStr ''''))),
                              description = strip (py_str B (dict_get item ''description'' (JStr ''''))),
                              quantity = q,
                              price = p,
                              item_notes = optional_field item ''notes'',
                              expected_cost = ec,
                              overcharge_flag = py_truthy (dict_get item ''overcharge_flag'' (JBool False)),
                              flag_level = (if fl \<notin> set [''low'', ''medium'', ''high''] then ''low'' else fl),
                              issue = optional_field item ''issue'' \<rparr>))))"

text \<open>The loops over the unwrapped list: an element that is not a dict is skipped.\<close>

fun normalize_line_items :: "builtins \<Rightarrow> json list \<Rightarrow> py_exn + line_item list" where
  "normalize_line_items B [] = Inr []"
| "normalize_line_items B (item # rest) =
     (case item of
        JDict d \<Rightarrow>
          (case normalize_line_item B d of
             Inl e \<Rightarrow> Inl e
           | Inr n \<Rightarrow>
               (case normalize_line_items B rest of
                  Inl e \<Rightarrow> Inl e
                | Inr ns \<Rightarrow> Inr (n # ns)))
      | _ \<Rightarrow> normalize_line_items B rest)"

fun normalize_analysis_items :: "builtins \<Rightarrow> json list \<Rightarrow> py_exn + analysis_item list" where
  "normalize_analysis_items B [] = Inr []"
| "normalize_analysis_items B (item # rest) =
     (case item of
        JDict d \<Rightarrow>
          (case normalize_analysis_item B d of
             Inl e \<Rightarrow> Inl e
           | Inr n \<Rightarrow>
               (case normalize_analysis_items B rest of
                  Inl e \<Rightarrow> Inl e
                | Inr ns \<Rightarrow> Inr (n # ns)))
      | _ \<Rightarrow> normalize_analysis_items B rest)"

text \<open>
  From the response text to the normalized list: \<^verbatim>\<open>extraction_agent\<close> lines 111 to 154
  and \<^verbatim>\<open>analysis_agent\<close> lines 124 to 176. The \<^verbatim>\<open>ValueError\<close> for a value that is not
  a list is not a \<^verbatim>\<open>JSONDecodeError\<close>, so it leaves the function as it is.
\<close>

definition extraction_parse :: "builtins \<Rightarrow> string \<Rightarrow> py_exn + line_item list" where
  "extraction_parse B content =
     (case json_loads B content of
        Inl m \<Rightarrow> Inl (PyExn ValueError (''Invalid JSON response from Extraction Agent: '' @ m))
      | Inr parsed \<Rightarrow>
          (case extraction_unwrap parsed of
             JList xs \<Rightarrow> normalize_line_items B xs
           | _ \<Rightarrow> Inl (PyExn ValueError ''Response is not a list'')))"

definition analysis_parse :: "builtins \<Rightarrow> string \<Rightarrow> py_exn + analysis_item list" where
  "analysis_parse B content =
     (case json_loads B content of
        Inl m \<Rightarrow> Inl (PyExn ValueError (''Invalid JSON response from Analysis Agent: '' @ m))
      | Inr parsed \<Rightarrow>
          (case analysis_unwrap parsed of
             JList xs \<Rightarrow> normalize_analysis_items B xs
           | _ \<Rightarrow> Inl (PyExn ValueError ''Response is not a list'')))"

text \<open>
  The order of search the specification gives for a keyed mapping: the well-known keys in
  order, then the value of a single key, then the first value that is a list, then the
  empty list.
\<close>

definition spec_payload :: "string list \<Rightarrow> (string \<times> json) list \<Rightarrow> json" where
  "spec_payload keys d =
     (case find (has_key d) keys of
        Some k \<Rightarrow> dict_get d k JNull
      | None \<Rightarrow>
          if length d = 1 then snd (hd d)
          else (case find is_list (map snd d) of Some v \<Rightarrow> v | None \<Rightarrow> JList []))"

text \<open>What \<^verbatim>\<open>json.dumps\<close> followed by \<^verbatim>\<open>json.loads\<close> makes of a normalized analysis record.\<close>

definition analysis_item_to_json :: "analysis_item \<Rightarrow> json" where
  "analysis_item_to_json n =
     JDict [(''code'', JStr (code n)),
            (''description'', JStr (description n)),
            (''quantity'', JFloat (quantity n)),
            (''price'', JFloat (price n)),
            (''notes'', item_notes n),
            (''expected_cost'', JFloat (expected_cost n)),
            (''overcharge_flag'', JBool (overcharge_flag n)),
            (''flag_level'', JStr (flag_level n)),
            (''issue'', issue n)]"


definition normalizes_analysis :: "builtins \<Rightarrow> json \<Rightarrow> analysis_item \<Rightarrow> bool" where
  "normalizes_analysis B v n =
     (case v of JDict d \<Rightarrow> normalize_analysis_item B d = Inr n | _ \<Rightarrow> False)"

text \<open>A library whose \<^verbatim>\<open>json.loads\<close> answers \<open>v\<close>, for the examples.\<close>

definition canned :: "json \<Rightarrow> builtins" where
  "canned v = \<lparr> json_loads = (\<lambda>s. Inr v), float_of_str = (\<lambda>s. None), str_of = (\<lambda>v. ''?'') \<rparr>"

section \<open>Aggregator\<close>

text \<open>
  The arithmetic of Python's floats, which this repository does not define, is a
  parameter: \<open>'f\<close> is the type of the floats (it may have infinities and NaN), \<open>0\<close> is
  the float 0.0 (equal in Python to the integer 0), \<open>float_mul\<close> is the product of the two
  floats that two fields of a record hold, \<open>float_add\<close> and \<open>float_sub\<close> are \<^verbatim>\<open>+\<close> and
  \<^verbatim>\<open>-\<close>, and \<open>float_round2 x\<close> is \<^verbatim>\<open>round(x, 2)\<close>.
\<close>

record 'f float_arith =
  float_mul :: "real \<Rightarrow> real \<Rightarrow> 'f"
  float_add :: "'f \<Rightarrow> 'f \<Rightarrow> 'f"
  float_sub :: "'f \<Rightarrow> 'f \<Rightarrow> 'f"
  float_round2 :: "'f \<Rightarrow> 'f"

text \<open>\<^verbatim>\<open>sum\<close> adds from the left, starting at the integer 0.\<close>

definition py_sum :: "'f::zero float_arith \<Rightarrow> 'f list \<Rightarrow> 'f" where
  "py_sum F xs = foldl (float_add F) 0 xs"

record 'f stats =
  total_items :: nat
  total_billed :: 'f
  total_expected :: 'f
  potential_savings :: 'f
  flagged_items :: nat

text \<open>
  The three sums of \<^verbatim>\<open>process_medical_bill\<close> (lines 130 to 132). The items are the
  normalized records, which have every key, so the defaults of \<^verbatim>\<open>item.get\<close> are never
  taken.
\<close>

definition total_billed_raw :: "'f::zero float_arith \<Rightarrow> analysis_item list \<Rightarrow> 'f" where
  "total_billed_raw F items = py_sum F (map (\<lambda>item. float_mul F (price item) (quantity item)) items)"

definition total_expected_raw :: "'f::zero float_arith \<Rightarrow> analysis_item list \<Rightarrow> 'f" where
  "total_expected_raw F items =
     py_sum F (map (\<lambda>item. float_mul F (expected_cost item) (quantity item)) items)"

definition count_flagged :: "analysis_item list \<Rightarrow> nat" where
  "count_flagged items = length (filter overcharge_flag items)"

text \<open>
  The dict \<^verbatim>\<open>summary_stats\<close> (lines 134 to 140). With no item the two sums and their
  difference are the integer 0, which \<^verbatim>\<open>round\<close> returns as it is; with an item they are
  floats, and \<^verbatim>\<open>round\<close> is the rounding of a float.
\<close>

definition summary_of :: "'f::zero float_arith \<Rightarrow> analysis_item list \<Rightarrow> 'f stats" where
  "summary_of F items =
     (if items = []
      then \<lparr> total_items = 0, total_billed = 0, total_expected = 0, potential_savings = 0,
             flagged_items = 0 \<rparr>
      else \<lparr> total_items = length items,
             total_billed = float_round2 F (total_billed_raw F items),
             total_expected = float_round2 F (total_expected_raw F items),
             potential_savings =
               float_round2 F (float_sub F (total_billed_raw F items) (total_expected_raw F items)),
             flagged_items = count_flagged items \<rparr>)"

text \<open>
  The arithmetic of IEEE 754 binary64 with rounding to nearest, ties to even, which is
  what Python's floats have. A finite float is written as the real number it is (so the
  two zeros are one); \<open>to_double x\<close> is the real nearest to \<open>x\<close> with 53 significant bits
  and an exponent of at least -1074, and \<open>round_double x\<close> is the float nearest to \<open>x\<close>,
  an infinity when that real reaches \<open>2 ^ 1024\<close>. \<open>exponent2 n a\<close> is the integer part of
  the binary logarithm of \<open>a\<close>, found in at most \<open>n\<close> steps. \<^verbatim>\<open>round(x, 2)\<close> leaves an
  infinity and a NaN as they are, and for a finite \<open>x\<close> rounds the exact value of \<open>x\<close> to
  the nearest hundredth, a tie to the even one, and returns the float nearest to that.
  A field of a record written as a decimal stands for the float nearest to it.
\<close>

datatype double = Finite real | PosInf | NegInf | NaN

instantiation double :: zero
begin

definition zero_double :: double where
  "zero_double = Finite 0"

instance ..

end

fun exponent2 :: "nat \<Rightarrow> real \<Rightarrow> int" where
  "exponent2 0 a = 0"
| "exponent2 (Suc n) a =
     (if 2 \<le> a then exponent2 n (a / 2) + 1
      else if a < 1 then exponent2 n (a * 2) - 1
      else 0)"

definition pow2 :: "int \<Rightarrow> real" where
  "pow2 e = (if 0 \<le> e then 2 ^ nat e else 1 / 2 ^ nat (- e))"

definition round_half_even :: "real \<Rightarrow> int" where
  "round_half_even y =
     (let f = \<lfloor>y\<rfloor>; d = y - of_int f
      in if d < 1 / 2 then f else if 1 / 2 < d then f + 1 else if even f then f else f + 1)"

definition to_double :: "real \<Rightarrow> real" where
  "to_double x =
     (if x = 0 then 0
      else (let e = max (exponent2 2200 \<bar>x\<bar> - 52) (- 1074)
            in of_int (round_half_even (x / pow2 e)) * pow2 e))"

definition round_double :: "real \<Rightarrow> double" where
  "round_double x =
     (let r = to_double x
      in if 2 ^ 1024 \<le> r then PosInf else if r \<le> - (2 ^ 1024) then NegInf else Finite r)"

fun double_add :: "double \<Rightarrow> double \<Rightarrow> double" where
  "double_add NaN b = NaN"
| "double_add a NaN = NaN"
| "double_add PosInf NegInf = NaN"
| "double_add NegInf PosInf = NaN"
| "double_add PosInf b = PosInf"
| "double_add a PosInf = PosInf"
| "double_add NegInf b = NegInf"
| "double_add a NegInf = NegInf"
| "double_add (Finite x) (Finite y) = round_double (x + y)"

fun double_neg :: "double \<Rightarrow> double" where
  "double_neg (Finite x) = Finite (- x)"
| "double_neg PosInf = NegInf"
| "double_neg NegInf = PosInf"
| "double_neg NaN = NaN"

fun double_round2 :: "double \<Rightarrow> double" where
  "double_round2 (Finite x) = round_double (of_int (round_half_even (x * 100)) / 100)"
| "double_round2 a = a"

definition ieee_double :: "double float_arith" where
  "ieee_double =
     \<lparr> float_mul = (\<lambda>x y. round_double (to_double x * to_double y)),
       float_add = double_add,
       float_sub = (\<lambda>a b. double_add a (double_neg b)),
       float_round2 = double_round2 \<rparr>"


text \<open>One item billed 10 against an expected 25.\<close>

definition cheap_item :: analysis_item where
  "cheap_item =
     \<lparr> code = ''B'', description = '''', quantity = 1, price = 10, item_notes = JNull,
       expected_cost = 25, overcharge_flag = False, flag_level = ''low'', issue = JNull \<rparr>"

section \<open>Stage pipeline\<close>

text \<open>
  The Completion Service: for each stage, the text it answers to the stage's prompt, or
  the exception the call raises. The prompt of a stage is a function of the stage's input.
\<close>

record completion_service =
  extraction_completion :: "string \<Rightarrow> py_exn + string"
  analysis_completion :: "line_item list \<Rightarrow> py_exn + string"
  negotiation_completion :: "analysis_item list \<Rightarrow> py_exn + string"

record materials =
  email :: string
  phone_script :: string
  summary :: string

record 'f pipeline_result =
  extraction :: "line_item list"
  analysis :: "analysis_item list"
  negotiation :: materials
  summary_stats :: "'f stats"

datatype agent_name = ExtractionAgent | AnalysisAgent | NegotiationAgent

definition extraction_agent :: "completion_service \<Rightarrow> builtins \<Rightarrow> string \<Rightarrow> py_exn + line_item list" where
  "extraction_agent S B ocr_text =
     (case extraction_completion S ocr_text of
        Inl e \<Rightarrow> Inl e
      | Inr content \<Rightarrow> extraction_parse B content)"

definition analysis_agent :: "completion_service \<Rightarrow> builtins \<Rightarrow> line_item list \<Rightarrow> py_exn + analysis_item list" where
  "analysis_agent S B line_items =
     (case analysis_completion S line_items of
        Inl e \<Rightarrow> Inl e
      | Inr content \<Rightarrow> analysis_parse B content)"

text \<open>
  \<^verbatim>\<open>negotiation_agent\<close>: \<^verbatim>\<open>parsed.get\<close> on a value that is not a dict raises
  \<^verbatim>\<open>AttributeError\<close>.
\<close>

definition negotiation_agent :: "completion_service \<Rightarrow> builtins \<Rightarrow> analysis_item list \<Rightarrow> py_exn + materials" where
  "negotiation_agent S B analysis_items =
     (case negotiation_completion S analysis_items of
        Inl e \<Rightarrow> Inl e
      | Inr content \<Rightarrow>
          (case json_loads B content of
             Inl m \<Rightarrow> Inl (PyExn ValueError (''Invalid JSON response from Negotiation Agent: '' @ m))
           | Inr parsed \<Rightarrow>
               (case parsed of
                  JDict d \<Rightarrow>
                    Inr \<lparr> email = strip (py_str B (dict_get d ''email'' (JStr ''''))),
                          phone_script = strip (py_str B (dict_get d ''phone_script'' (JStr ''''))),
                          summary = strip (py_str B (dict_get d ''summary'' (JStr ''''))) \<rparr>
                | _ \<Rightarrow> Inl (PyExn AttributeError ''object has no attribute get''))))"

definition placeholder_materials :: materials where
  "placeholder_materials =
     \<lparr> email = ''No line items were extracted from this bill. Please review the document manually.'',
       phone_script = ''No specific issues were identified. Please review the bill with the billing department.'',
       summary = ''The bill could not be automatically processed. Please review it manually or try again with a clearer image/PDF.'' \<rparr>"

text \<open>
  \<^verbatim>\<open>process_medical_bill\<close>. The second component lists the agents that were called, in
  order.
\<close>

definition process_medical_bill ::
  "'f::zero float_arith \<Rightarrow> completion_service \<Rightarrow> builtins \<Rightarrow> string
     \<Rightarrow> (py_exn + 'f pipeline_result) \<times> agent_name list" where
  "process_medical_bill F S B ocr_text =
     (case extraction_agent S B ocr_text of
        Inl e \<Rightarrow> (Inl e, [ExtractionAgent])
      | Inr line_items \<Rightarrow>
          (case (if line_items \<noteq> []
                 then (analysis_agent S B line_items, [ExtractionAgent, AnalysisAgent])
                 else (Inr [], [ExtractionAgent])) of
             (Inl e, called) \<Rightarrow> (Inl e, called)
           | (Inr analysis_items, called) \<Rightarrow>
               (case (if analysis_items \<noteq> []
                      then (negotiation_agent S B analysis_items, called @ [NegotiationAgent])
                      else (Inr placeholder_materials, called)) of
                  (Inl e, called') \<Rightarrow> (Inl e, called')
                | (Inr negotiation_materials, called') \<Rightarrow>
                    (Inr \<lparr> extraction = line_items,
                           analysis = analysis_items,
                           negotiation = negotiation_materials,
                           summary_stats = summary_of F analysis_items \<rparr>,
                     called'))))"

text \<open>
  A service that answers \<open>c1\<close> to the extraction prompt and \<open>c2\<close> to the analysis prompt,
  and whose negotiation call fails; a library whose \<^verbatim>\<open>json.loads\<close> reads the text
  \<open>first\<close> as \<open>a\<close> and any other text as \<open>b\<close>.
\<close>

definition scripted_service :: "string \<Rightarrow> string \<Rightarrow> completion_service" where
  "scripted_service c1 c2 =
     \<lparr> extraction_completion = (\<lambda>t. Inr c1),
       analysis_completion = (\<lambda>ls. Inr c2),
       negotiation_completion = (\<lambda>ns. Inl (PyExn OtherException ''negotiation unavailable'')) \<rparr>"

definition two_texts :: "json \<Rightarrow> json \<Rightarrow> builtins" where
  "two_texts a b =
     \<lparr> json_loads = (\<lambda>s. if s = ''first'' then Inr a else Inr b),
       float_of_str = (\<lambda>s. None),
       str_of = (\<lambda>v. ''?'') \<rparr>"

section \<open>Dual extraction selector\<close>

text \<open>
  A document, as the two extractors see it. \<open>pdf_pages\<close>: what opening the file with
  pdfplumber gives (the exception that reaches the handlers of \<^verbatim>\<open>TextPDFExtractor.extract\<close>,
  or for each page what \<^verbatim>\<open>page.extract_text()\<close> does). \<open>page_images k\<close>: the same for
  the \<open>k\<close>-th call of \<^verbatim>\<open>ImageOCRExtractor.extract\<close>, whose pages are what
  \<^verbatim>\<open>pytesseract.image_to_string\<close> does on each image.
\<close>

record document =
  pdf_pages :: "py_exn + (py_exn + string option) list"
  page_images :: "nat \<Rightarrow> py_exn + (py_exn + string) list"

text \<open>The page loop of \<^verbatim>\<open>TextPDFExtractor.extract\<close> (lines 51 to 60).\<close>

fun text_page_loop :: "(py_exn + string option) list \<Rightarrow> string list" where
  "text_page_loop [] = []"
| "text_page_loop (page # rest) =
     (case page of
        Inl e \<Rightarrow> '''' # text_page_loop rest
      | Inr page_text \<Rightarrow>
          (case page_text of
             None \<Rightarrow> '''' # text_page_loop rest
           | Some t \<Rightarrow> (if t \<noteq> [] then t else '''') # text_page_loop rest))"

definition text_extractor_extract :: "document \<Rightarrow> py_exn + string list" where
  "text_extractor_extract doc =
     (case pdf_pages doc of
        Inl e \<Rightarrow>
          if kind e = FileNotFoundError then Inl e
          else Inl (PyExn ValueError (''Failed to extract text from PDF: '' @ message e))
      | Inr pages \<Rightarrow> Inr (text_page_loop pages))"

text \<open>The page loop of \<^verbatim>\<open>ImageOCRExtractor.extract\<close> (lines 100 to 108).\<close>

fun ocr_page_loop :: "(py_exn + string) list \<Rightarrow> string list" where
  "ocr_page_loop [] = []"
| "ocr_page_loop (img # rest) =
     (case img of
        Inl e \<Rightarrow> '''' # ocr_page_loop rest
      | Inr page_text \<Rightarrow> (if page_text \<noteq> [] then strip page_text else '''') # ocr_page_loop rest)"

definition ocr_extractor_extract :: "document \<Rightarrow> nat \<Rightarrow> py_exn + string list" where
  "ocr_extractor_extract doc k =
     (case page_images doc k of
        Inl e \<Rightarrow>
          if kind e = FileNotFoundError \<or> kind e = ValueError then Inl e
          else Inl (PyExn ValueError (''Failed to perform OCR: '' @ message e))
      | Inr images \<Rightarrow> Inr (ocr_page_loop images))"

datatype strategy = TextStrategy | OcrStrategy

text \<open>The returned dict, with keys \<^verbatim>\<open>text\<close>, \<^verbatim>\<open>pages\<close> and \<^verbatim>\<open>method\<close>.\<close>

record extraction_outcome =
  out_text :: string
  out_pages :: "string list"
  out_method :: string

text \<open>\<^verbatim>\<open>"\n\n".join(pages)\<close>\<close>

fun join_pages :: "string list \<Rightarrow> string" where
  "join_pages [] = ''''"
| "join_pages [p] = p"
| "join_pages (p # q # rest) = p @ [CHR 0x0A, CHR 0x0A] @ join_pages (q # rest)"

definition outcome :: "string list \<Rightarrow> string \<Rightarrow> extraction_outcome" where
  "outcome ps m = \<lparr> out_text = join_pages ps, out_pages = ps, out_method = m \<rparr>"

text \<open>
  The handler \<^verbatim>\<open>except Exception as text_error\<close> of \<^verbatim>\<open>OCRPipeline.extract\<close> (lines 84
  to 97); \<open>k\<close> counts the calls of the OCR extractor made before.
\<close>

definition ocr_after_error ::
  "document \<Rightarrow> py_exn \<Rightarrow> nat \<Rightarrow> strategy list \<Rightarrow> (py_exn + extraction_outcome) \<times> strategy list" where
  "ocr_after_error doc text_error k called =
     (case ocr_extractor_extract doc k of
        Inr ps \<Rightarrow> (Inr (outcome ps ''ocr''), called @ [OcrStrategy])
      | Inl ocr_error \<Rightarrow>
          (Inl (PyExn ValueError
                 (''Both text extraction and OCR failed. Text extraction error: ''
                  @ message text_error @ ''. OCR error: '' @ message ocr_error)),
           called @ [OcrStrategy]))"

text \<open>
  \<^verbatim>\<open>OCRPipeline.extract\<close> with \<^verbatim>\<open>return_pages=True\<close>. The second component lists the
  strategies that were called, in order. The call of the OCR extractor in the
  \<^verbatim>\<open>else\<close> branch is inside the \<^verbatim>\<open>try\<close>: when it raises, the handler takes its
  exception for \<^verbatim>\<open>text_error\<close> and calls the OCR extractor once more.
\<close>

definition min_text_threshold_default :: int where
  "min_text_threshold_default = 50"

definition ocr_pipeline_extract ::
  "document \<Rightarrow> int \<Rightarrow> (py_exn + extraction_outcome) \<times> strategy list" where
  "ocr_pipeline_extract doc min_text_threshold =
     (case text_extractor_extract doc of
        Inl text_error \<Rightarrow> ocr_after_error doc text_error 0 [TextStrategy]
      | Inr ps \<Rightarrow>
          (let total_text = concat ps;
               total_length = int (length (strip total_text))
           in if total_length \<ge> min_text_threshold
              then (Inr (outcome ps ''text''), [TextStrategy])
              else (case ocr_extractor_extract doc 0 of
                      Inr ps' \<Rightarrow> (Inr (outcome ps' ''ocr''), [TextStrategy, OcrStrategy])
                    | Inl text_error \<Rightarrow> ocr_after_error doc text_error 1 [TextStrategy, OcrStrategy])))"

text \<open>A scanned document of two pages: no embedded text, and OCR fails on the second page.\<close>

definition scanned_document :: document where
  "scanned_document =
     \<lparr> pdf_pages = Inr [Inr None, Inl (PyExn OtherException ''bad page'')],
       page_images = (\<lambda>k. Inr [Inr ''  Total due 120.00  '', Inl (PyExn OtherException ''ocr crashed'')]) \<rparr>"

text \<open>A file neither extractor can read.\<close>

definition unreadable_document :: document where
  "unreadable_document =
     \<lparr> pdf_pages = Inl (PyExn OtherException ''not a PDF''),
       page_images = (\<lambda>k. Inl (PyExn ValueError ''no poppler'')) \<rparr>"


section \<open>Debate\<close>

datatype debate_role = Fighter | Hospital

record debate_message =
  role :: debate_role
  content :: string

text \<open>
  The two agents: what \<^verbatim>\<open>generate_response(previous_message, bill_json, round_number)\<close>
  returns (the stripped text of the Completion Service) or raises. Within one run every
  call has its own pair of agent and round number.
\<close>

record debate_agents =
  fighter_response :: "string option \<Rightarrow> json \<Rightarrow> int \<Rightarrow> py_exn + string"
  hospital_response :: "string option \<Rightarrow> json \<Rightarrow> int \<Rightarrow> py_exn + string"

text \<open>A call of \<^verbatim>\<open>generate_response\<close>: the agent, the previous message, the round.\<close>

type_synonym agent_call = "debate_role \<times> string option \<times> int"

text \<open>
  One round of \<^verbatim>\<open>run_debate\<close>: the fighter speaks, then the hospital answers the
  fighter's message. The state is the transcript and \<^verbatim>\<open>previous_message\<close>; \<open>calls\<close> are
  the calls made so far.
\<close>

definition debate_round ::
  "debate_agents \<Rightarrow> json \<Rightarrow> int \<Rightarrow> debate_message list \<times> string option \<Rightarrow> agent_call list
     \<Rightarrow> (py_exn + debate_message list \<times> string option) \<times> agent_call list" where
  "debate_round A bill_json round_number st calls =
     (case st of (transcript, previous_message) \<Rightarrow>
        (case fighter_response A previous_message bill_json round_number of
           Inl e \<Rightarrow> (Inl e, calls @ [(Fighter, previous_message, round_number)])
         | Inr fighter_msg \<Rightarrow>
             (case hospital_response A (Some fighter_msg) bill_json round_number of
                Inl e \<Rightarrow>
                  (Inl e, calls @ [(Fighter, previous_message, round_number),
                                   (Hospital, Some fighter_msg, round_number)])
              | Inr hospital_msg \<Rightarrow>
                  (Inr (transcript @ [\<lparr> role = Fighter, content = fighter_msg \<rparr>,
                                      \<lparr> role = Hospital, content = hospital_msg \<rparr>],
                        Some hospital_msg),
                   calls @ [(Fighter, previous_message, round_number),
                            (Hospital, Some fighter_msg, round_number)]))))"

text \<open>
  \<^verbatim>\<open>DebateManager.run_debate\<close> (lines 353 to 424) for a manager built with
  \<open>max_rounds\<close>: the check of \<^verbatim>\<open>bill_json\<close>, the clamp, round 1, round 2 when
  \<^verbatim>\<open>num_rounds >= 2\<close>, round 3 when \<^verbatim>\<open>num_rounds >= 3\<close>. There is no code for a
  fourth round. (Round 3 leaves \<^verbatim>\<open>previous_message\<close> at the fighter's message; nothing
  reads it afterwards.)
\<close>

definition run_debate ::
  "debate_agents \<Rightarrow> int \<Rightarrow> json \<Rightarrow> int option \<Rightarrow> (py_exn + debate_message list) \<times> agent_call list" where
  "run_debate A max_rounds bill_json num_rounds_arg =
     (if \<not> py_truthy bill_json \<or> \<not> is_list bill_json
      then (Inl (PyExn ValueError ''bill_json must be a non-empty list of line items''), [])
      else
        (let num_rounds = (case num_rounds_arg of Some n \<Rightarrow> n | None \<Rightarrow> max_rounds);
             num_rounds = max 1 (min num_rounds max_rounds)
         in case debate_round A bill_json 1 ([], None) [] of
              (Inl e, calls) \<Rightarrow> (Inl e, calls)
            | (Inr st1, calls1) \<Rightarrow>
                (case (if num_rounds \<ge> 2 then debate_round A bill_json 2 st1 calls1
                       else (Inr st1, calls1)) of
                   (Inl e, calls) \<Rightarrow> (Inl e, calls)
                 | (Inr st2, calls2) \<Rightarrow>
                     (case (if num_rounds \<ge> 3 then debate_round A bill_json 3 st2 calls2
                            else (Inr st2, calls2)) of
                        (Inl e, calls) \<Rightarrow> (Inl e, calls)
                      | (Inr st3, calls3) \<Rightarrow> (Inr (fst st3), calls3)))))"

text \<open>\<open>clamp(requested_rounds, 1, max_rounds)\<close> of the specification.\<close>

definition clamp_rounds :: "int \<Rightarrow> int \<Rightarrow> int" where
  "clamp_rounds requested max_rounds = max 1 (min requested max_rounds)"

text \<open>Agents that always answer.\<close>

definition talkative_agents :: debate_agents where
  "talkative_agents =
     \<lparr> fighter_response = (\<lambda>previous bill r. Inr ''overcharged''),
       hospital_response = (\<lambda>previous bill r. Inr ''justified'') \<rparr>"

text \<open>A bill of one analysis record.\<close>

definition sample_bill :: json where
  "sample_bill = JList [analysis_item_to_json cheap_item]"

section \<open>Properties of the normalizer\<close>

lemma dropWhile_strip: "dropWhile is_space (strip s) = strip s"
proof (cases "dropWhile is_space s")
  case Nil
  show ?thesis unfolding strip_def Nil by simp
next
  case (Cons x t)
  then have nx: "\<not> is_space x" by (metis hd_dropWhile list.sel(1) list.distinct(1))
  have "rev (dropWhile is_space s) = rev t @ [x]" using Cons by simp
  then have "dropWhile is_space (rev (dropWhile is_space s)) = dropWhile is_space (rev t) @ [x]"
    using nx by (simp add: dropWhile_append)
  then have "strip s = x # rev (dropWhile is_space (rev t))" by (simp add: strip_def)
  then show ?thesis using nx by simp
qed

lemma strip_idem: "strip (strip s) = strip s"
proof -
  have "strip (strip s) = rev (dropWhile is_space (rev (strip s)))"
    by (simp add: strip_def[of "strip s"] dropWhile_strip)
  also have "\<dots> = strip s" by (simp add: strip_def)
  finally show ?thesis .
qed

lemma lower_canonical: "fl \<in> set [''low'', ''medium'', ''high''] \<Longrightarrow> lower fl = fl"
  by (auto simp: lower_def lower_char_def)

lemma lower_samples:
  "lower ''HIGH'' = ''high''" "lower ''Medium'' = ''medium''" "lower ''urgent'' = ''urgent''"
  "lower ''low'' = ''low''"
  by code_simp+

lemma analysis_unwrap_spec:
  "analysis_unwrap (JDict d) = spec_payload [''line_items'', ''items'', ''analysis''] d"
  by (simp add: analysis_unwrap_def spec_payload_def first_list_value_def)

lemma extraction_unwrap_spec:
  "extraction_unwrap (JDict d) = spec_payload [''line_items'', ''items''] d"
  by (simp add: extraction_unwrap_def spec_payload_def first_list_value_def)

lemma normalize_code_only:
  "normalize_analysis_item B [(''code'', JStr ''X'')] =
     Inr \<lparr> code = ''X'', description = '''', quantity = 1, price = 0, item_notes = JNull,
           expected_cost = 0, overcharge_flag = False, flag_level = ''low'', issue = JNull \<rparr>"
  by (simp add: normalize_analysis_item_def dict_get_def py_float_def py_str_def strip_def
      is_space_def optional_field_def py_truthy_def lower_def lower_char_def)

lemma analysis_example:
  assumes "json_loads B resp = Inr (JDict [(''analysis'', JList [JDict [(''code'', JStr ''X'')]])])"
  shows "analysis_parse B resp =
     Inr [\<lparr> code = ''X'', description = '''', quantity = 1, price = 0, item_notes = JNull,
            expected_cost = 0, overcharge_flag = False, flag_level = ''low'', issue = JNull \<rparr>]"
  using assms
  by (simp add: analysis_parse_def analysis_unwrap_def has_key_def dict_get_def normalize_code_only)

text \<open>
  C3. For a parsed keyed mapping, both stages select the payload in the order of the
  specification: the well-known keys in order (\<open>line_items\<close>, \<open>items\<close>, and for the
  analysis stage \<open>analysis\<close>), then the value of a single key, then the first value that
  is a list, then the empty list. An analysis response whose only key \<open>analysis\<close> holds
  the list of the one record with code X gives one record with price 0, quantity 1,
  expected cost 0, flag level low and no overcharge flag.
\<close>

theorem payload_precedence:
  "analysis_unwrap (JDict d) = spec_payload [''line_items'', ''items'', ''analysis''] d
   \<and> extraction_unwrap (JDict d) = spec_payload [''line_items'', ''items''] d
   \<and> (json_loads B resp = Inr (JDict [(''analysis'', JList [JDict [(''code'', JStr ''X'')]])])
        \<longrightarrow> analysis_parse B resp =
              Inr [\<lparr> code = ''X'', description = '''', quantity = 1, price = 0,
                     item_notes = JNull, expected_cost = 0, overcharge_flag = False,
                     flag_level = ''low'', issue = JNull \<rparr>])"
  using analysis_unwrap_spec extraction_unwrap_spec analysis_example by blast

theorem payload_precedence_witness:
  "analysis_unwrap (JDict [(''status'', JStr ''ok''), (''analysis'', JList [JInt 1]),
                           (''items'', JList [JInt 2])]) = JList [JInt 2]
   \<and> analysis_unwrap (JDict [(''data'', JStr ''none'')]) = JStr ''none''
   \<and> analysis_unwrap (JDict [(''status'', JStr ''ok''), (''rows'', JList [JInt 3]),
                             (''more'', JList [])]) = JList [JInt 3]
   \<and> analysis_unwrap (JDict [(''status'', JStr ''ok''), (''count'', JInt 0)]) = JList []
   \<and> extraction_unwrap (JDict [(''analysis'', JInt 1), (''rows'', JList [JInt 3])]) = JList [JInt 3]
   \<and> analysis_parse (canned (JDict [(''analysis'', JList [JDict [(''code'', JStr ''X'')]])])) ''response'' =
         Inr [\<lparr> code = ''X'', description = '''', quantity = 1, price = 0,
                item_notes = JNull, expected_cost = 0, overcharge_flag = False,
                flag_level = ''low'', issue = JNull \<rparr>]"
  using
    payload_precedence [of "[(''status'', JStr ''ok''), (''analysis'', JList [JInt 1]), (''items'', JList [JInt 2])]"
      "canned (JDict [(''analysis'', JList [JDict [(''code'', JStr ''X'')]])])" "''response''"]
    payload_precedence [of "[(''data'', JStr ''none'')]"]
    payload_precedence [of "[(''status'', JStr ''ok''), (''rows'', JList [JInt 3]), (''more'', JList [])]"]
    payload_precedence [of "[(''status'', JStr ''ok''), (''count'', JInt 0)]"]
    payload_precedence [of "[(''analysis'', JInt 1), (''rows'', JList [JInt 3])]"]
  by (simp add: spec_payload_def has_key_def dict_get_def is_list_def canned_def)

lemma normalize_flag_level:
  assumes "normalize_analysis_item B item = Inr n"
  shows "flag_level n =
           (let fl = lower (py_str B (dict_get item ''flag_level'' (JStr ''low'')))
            in if fl \<in> {''low'', ''medium'', ''high''} then fl else ''low'')"
  using assms
  by (auto simp: normalize_analysis_item_def Let_def split: sum.splits)

lemma normalize_flag_level_canonical:
  assumes "normalize_analysis_item B item = Inr n"
  shows "flag_level n \<in> {''low'', ''medium'', ''high''}"
  using normalize_flag_level[OF assms] by (auto simp: Let_def split: if_splits)

lemma normalize_flag_level_missing:
  assumes "normalize_analysis_item B item = Inr n" and "\<not> has_key item ''flag_level''"
  shows "flag_level n = ''low''"
proof -
  have "dict_get item ''flag_level'' (JStr ''low'') = JStr ''low''"
    using assms(2) by (simp add: has_key_def dict_get_def)
  then show ?thesis
    using normalize_flag_level[OF assms(1)] by (simp add: py_str_def lower_def lower_char_def)
qed

lemma normalize_analysis_items_members:
  "normalize_analysis_items B xs = Inr ns \<Longrightarrow> n \<in> set ns \<Longrightarrow>
     \<exists>d. JDict d \<in> set xs \<and> normalize_analysis_item B d = Inr n"
proof (induction xs arbitrary: ns)
  case Nil
  then show ?case by simp
next
  case (Cons item rest)
  show ?case
  proof (cases item)
    case (JDict d)
    with Cons.prems obtain m ms where
      m: "normalize_analysis_item B d = Inr m" and ms: "normalize_analysis_items B rest = Inr ms"
      and ns: "ns = m # ms"
      by (auto split: sum.splits)
    show ?thesis
    proof (cases "n = m")
      case True
      with m JDict show ?thesis by auto
    next
      case False
      with Cons.prems ns have "n \<in> set ms" by simp
      from Cons.IH[OF ms this] show ?thesis by auto
    qed
  qed (use Cons in auto)
qed

lemma analysis_parse_members:
  assumes "analysis_parse B resp = Inr ns" and "n \<in> set ns"
  shows "\<exists>d. normalize_analysis_item B d = Inr n"
proof -
  from assms(1) obtain xs where "normalize_analysis_items B xs = Inr ns"
    by (auto simp: analysis_parse_def split: sum.splits json.splits)
  from normalize_analysis_items_members[OF this assms(2)] show ?thesis by blast
qed

text \<open>
  C5, as the claim states it, fails: the flag level \<open>HIGH\<close> is none of the three
  canonical values, and the record gets \<open>high\<close>, not \<open>low\<close>.
\<close>

theorem flag_level_uppercase_counterexample:
  "''HIGH'' \<notin> set [''low'', ''medium'', ''high'']
   \<and> analysis_parse (canned (JDict [(''line_items'', JList [JDict [(''flag_level'', JStr ''HIGH'')]])]))
         ''response'' =
       Inr [\<lparr> code = '''', description = '''', quantity = 1, price = 0, item_notes = JNull,
              expected_cost = 0, overcharge_flag = False, flag_level = ''high'', issue = JNull \<rparr>]"
  by (simp add: analysis_parse_def analysis_unwrap_def canned_def has_key_def dict_get_def
      normalize_analysis_item_def py_float_def py_str_def strip_def optional_field_def
      py_truthy_def lower_samples)

text \<open>
  C5, amended. Every record of a normalized analysis collection has a flag level among
  low, medium and high. The level is the lower-cased text of the input value when that is
  one of the three, and low otherwise; a record with no flag level gets low.
\<close>

theorem flag_level_canonical:
  "(analysis_parse B resp = Inr ns \<and> n \<in> set ns
      \<longrightarrow> flag_level n \<in> {''low'', ''medium'', ''high''})
   \<and> (normalize_analysis_item B item = Inr m
      \<longrightarrow> flag_level m =
            (let fl = lower (py_str B (dict_get item ''flag_level'' (JStr ''low'')))
             in if fl \<in> {''low'', ''medium'', ''high''} then fl else ''low'')
          \<and> (\<not> has_key item ''flag_level'' \<longrightarrow> flag_level m = ''low''))"
  using analysis_parse_members normalize_flag_level_canonical normalize_flag_level
    normalize_flag_level_missing
  by blast

theorem flag_level_canonical_witness:
  "analysis_parse (canned (JList [JDict [(''flag_level'', JStr ''urgent'')]])) ''response'' =
     Inr [\<lparr> code = '''', description = '''', quantity = 1, price = 0, item_notes = JNull,
            expected_cost = 0, overcharge_flag = False, flag_level = ''low'', issue = JNull \<rparr>]
   \<and> normalize_analysis_item (canned JNull) [(''flag_level'', JStr ''Medium'')] =
     Inr \<lparr> code = '''', description = '''', quantity = 1, price = 0, item_notes = JNull,
           expected_cost = 0, overcharge_flag = False, flag_level = ''medium'', issue = JNull \<rparr>
   \<and> normalize_analysis_item (canned JNull) [(''code'', JStr ''X'')] =
     Inr \<lparr> code = ''X'', description = '''', quantity = 1, price = 0, item_notes = JNull,
           expected_cost = 0, overcharge_flag = False, flag_level = ''low'', issue = JNull \<rparr>"
  using
    flag_level_canonical [of "canned (JList [JDict [(''flag_level'', JStr ''urgent'')]])" "''response''"
      "[\<lparr> code = '''', description = '''', quantity = 1, price = 0, item_notes = JNull,
            expected_cost = 0, overcharge_flag = False, flag_level = ''low'', issue = JNull \<rparr>]"
      "\<lparr> code = '''', description = '''', quantity = 1, price = 0, item_notes = JNull,
            expected_cost = 0, overcharge_flag = False, flag_level = ''low'', issue = JNull \<rparr>"
      "[(''flag_level'', JStr ''Medium'')]"
      "\<lparr> code = '''', description = '''', quantity = 1, price = 0, item_notes = JNull,
           expected_cost = 0, overcharge_flag = False, flag_level = ''medium'', issue = JNull \<rparr>"]
    flag_level_canonical [of "canned JNull" "''''" "[]" _ "[(''code'', JStr ''X'')]"
      "\<lparr> code = ''X'', description = '''', quantity = 1, price = 0, item_notes = JNull,
           expected_cost = 0, overcharge_flag = False, flag_level = ''low'', issue = JNull \<rparr>"]
  by (simp add: analysis_parse_def analysis_unwrap_def canned_def has_key_def dict_get_def
      normalize_analysis_item_def py_float_def py_str_def strip_def optional_field_def
      py_truthy_def lower_samples is_space_def)

















lemma optional_field_cases: "optional_field item k = JNull \<or> py_truthy (optional_field item k)"
  by (simp add: optional_field_def)

lemma optional_field_stable:
  assumes "v = JNull \<or> py_truthy v" and "dict_get d k JNull = v"
  shows "optional_field d k = v"
  using assms by (auto simp: optional_field_def)

lemma renormalize_item:
  assumes "normalize_analysis_item B item = Inr n"
  shows "normalizes_analysis B (analysis_item_to_json n) n"
proof -
  let ?d = "[(''code'', JStr (code n)), (''description'', JStr (description n)),
             (''quantity'', JFloat (quantity n)), (''price'', JFloat (price n)),
             (''notes'', item_notes n), (''expected_cost'', JFloat (expected_cost n)),
             (''overcharge_flag'', JBool (overcharge_flag n)),
             (''flag_level'', JStr (flag_level n)), (''issue'', issue n)]"
  have fl: "flag_level n \<in> set [''low'', ''medium'', ''high'']"
    using normalize_flag_level_canonical[OF assms] by simp
  have lfl: "lower (flag_level n) = flag_level n" by (rule lower_canonical[OF fl])
  have c: "strip (code n) = code n" and d: "strip (description n) = description n"
    using assms by (auto simp: normalize_analysis_item_def Let_def strip_idem split: sum.splits)
  have "item_notes n = optional_field item ''notes''" and "issue n = optional_field item ''issue''"
    using assms by (auto simp: normalize_analysis_item_def Let_def split: sum.splits)
  then have "item_notes n = JNull \<or> py_truthy (item_notes n)"
    and "issue n = JNull \<or> py_truthy (issue n)"
    using optional_field_cases by simp_all
  then have nt: "optional_field ?d ''notes'' = item_notes n"
    and iss: "optional_field ?d ''issue'' = issue n"
    by (simp_all add: optional_field_stable dict_get_def)
  have "normalize_analysis_item B ?d = Inr n"
    unfolding normalize_analysis_item_def nt iss
    using fl lfl c d
    by (auto simp: dict_get_def py_float_def py_str_def py_truthy_def Let_def)
  then show ?thesis
    by (simp add: normalizes_analysis_def analysis_item_to_json_def)
qed

lemma renormalize_items:
  assumes "\<forall>n \<in> set ns. \<exists>item. normalize_analysis_item B item = Inr n"
  shows "normalize_analysis_items B (map analysis_item_to_json ns) = Inr ns"
  using assms
proof (induction ns)
  case Nil
  show ?case by simp
next
  case (Cons n ns)
  then obtain item where "normalize_analysis_item B item = Inr n" by auto
  from renormalize_item[OF this] Cons show ?case
    by (auto simp: normalizes_analysis_def analysis_item_to_json_def)
qed

text \<open>
  C9. When the analysis normalizer has produced a collection from one response, a text
  that \<^verbatim>\<open>json.loads\<close> reads as the JSON encoding of that collection normalizes to the
  same collection.
\<close>

theorem normalizer_idempotent:
  assumes "analysis_parse B resp = Inr ns"
    and "json_loads B resp' = Inr (JList (map analysis_item_to_json ns))"
  shows "analysis_parse B resp' = Inr ns"
proof -
  have "\<forall>n \<in> set ns. \<exists>item. normalize_analysis_item B item = Inr n"
    using analysis_parse_members[OF assms(1)] by blast
  from renormalize_items[OF this] assms(2) show ?thesis
    by (simp add: analysis_parse_def analysis_unwrap_def)
qed

text \<open>
  A response with a padded code, an integer price, an upper-case flag level, an empty
  note and a stray string, and the encoding of what it normalizes to.
\<close>

theorem normalizer_idempotent_witness:
  "analysis_parse
     (two_texts
        (JDict [(''items'', JList [JDict [(''code'', JStr '' 99213 ''), (''price'', JInt 120),
                                          (''flag_level'', JStr ''HIGH''), (''notes'', JStr '''')],
                                   JStr ''junk''])])
        (JList (map analysis_item_to_json
           [\<lparr> code = ''99213'', description = '''', quantity = 1, price = 120, item_notes = JNull,
               expected_cost = 120, overcharge_flag = False, flag_level = ''high'', issue = JNull \<rparr>])))
     ''first'' =
     Inr [\<lparr> code = ''99213'', description = '''', quantity = 1, price = 120, item_notes = JNull,
            expected_cost = 120, overcharge_flag = False, flag_level = ''high'', issue = JNull \<rparr>]
   \<and> analysis_parse
     (two_texts
        (JDict [(''items'', JList [JDict [(''code'', JStr '' 99213 ''), (''price'', JInt 120),
                                          (''flag_level'', JStr ''HIGH''), (''notes'', JStr '''')],
                                   JStr ''junk''])])
        (JList (map analysis_item_to_json
           [\<lparr> code = ''99213'', description = '''', quantity = 1, price = 120, item_notes = JNull,
               expected_cost = 120, overcharge_flag = False, flag_level = ''high'', issue = JNull \<rparr>])))
     ''second'' =
     Inr [\<lparr> code = ''99213'', description = '''', quantity = 1, price = 120, item_notes = JNull,
            expected_cost = 120, overcharge_flag = False, flag_level = ''high'', issue = JNull \<rparr>]"
proof -
  let ?n = "\<lparr> code = ''99213'', description = '''', quantity = 1, price = 120, item_notes = JNull,
              expected_cost = 120, overcharge_flag = False, flag_level = ''high'', issue = JNull \<rparr>"
  let ?B = "two_texts
        (JDict [(''items'', JList [JDict [(''code'', JStr '' 99213 ''), (''price'', JInt 120),
                                          (''flag_level'', JStr ''HIGH''), (''notes'', JStr '''')],
                                   JStr ''junk''])])
        (JList (map analysis_item_to_json [?n]))"
  have first: "analysis_parse ?B ''first'' = Inr [?n]"
    by (simp add: analysis_parse_def analysis_unwrap_def two_texts_def has_key_def dict_get_def
        normalize_analysis_item_def py_float_def py_str_def strip_def is_space_def
        optional_field_def py_truthy_def lower_samples)
  have second: "json_loads ?B ''second'' = Inr (JList (map analysis_item_to_json [?n]))"
    by (simp add: two_texts_def)
  from normalizer_idempotent [OF first second] first show ?thesis by simp
qed

section \<open>Properties of the aggregator and the pipeline\<close>

lemma summary_of_empty:
  "summary_of F [] =
     \<lparr> total_items = 0, total_billed = 0, total_expected = 0, potential_savings = 0,
       flagged_items = 0 \<rparr>"
  by (simp add: summary_of_def)












lemma process_no_line_items:
  assumes "extraction_agent S B ocr_text = Inr []"
  shows "process_medical_bill F S B ocr_text =
     (Inr \<lparr> extraction = [], analysis = [], negotiation = placeholder_materials,
            summary_stats = \<lparr> total_items = 0, total_billed = 0, total_expected = 0,
                              potential_savings = 0, flagged_items = 0 \<rparr> \<rparr>,
      [ExtractionAgent])"
  using assms by (simp add: process_medical_bill_def summary_of_empty)

lemma process_no_analysis_items:
  assumes "extraction_agent S B ocr_text = Inr ls" and "ls \<noteq> []"
    and "analysis_agent S B ls = Inr []"
  shows "process_medical_bill F S B ocr_text =
     (Inr \<lparr> extraction = ls, analysis = [], negotiation = placeholder_materials,
            summary_stats = \<lparr> total_items = 0, total_billed = 0, total_expected = 0,
                              potential_savings = 0, flagged_items = 0 \<rparr> \<rparr>,
      [ExtractionAgent, AnalysisAgent])"
  using assms by (simp add: process_medical_bill_def summary_of_empty)

lemma process_empty_analysis:
  assumes "process_medical_bill F S B ocr_text = (Inr r, called)" and "analysis r = []"
  shows "negotiation r = placeholder_materials \<and> NegotiationAgent \<notin> set called
         \<and> summary_stats r = \<lparr> total_items = 0, total_billed = 0, total_expected = 0,
                                 potential_savings = 0, flagged_items = 0 \<rparr>"
  using assms
  by (auto simp: process_medical_bill_def summary_of_empty
      split: sum.splits if_splits prod.splits)

text \<open>
  C7. When the extraction returns no line item, or the analysis of the line items returns
  none, the pipeline returns a result: no negotiation call is made, the negotiation
  materials are the fixed placeholder, and the summary statistics are all zero. Every
  result with an empty analysis collection is of this kind.
\<close>

theorem empty_analysis_placeholder:
  "(extraction_agent S B ocr_text = Inr [] \<longrightarrow>
      process_medical_bill F S B ocr_text =
        (Inr \<lparr> extraction = [], analysis = [], negotiation = placeholder_materials,
               summary_stats = \<lparr> total_items = 0, total_billed = 0, total_expected = 0,
                                 potential_savings = 0, flagged_items = 0 \<rparr> \<rparr>,
         [ExtractionAgent]))
   \<and> (extraction_agent S B ocr_text = Inr ls \<and> ls \<noteq> [] \<and> analysis_agent S B ls = Inr [] \<longrightarrow>
      process_medical_bill F S B ocr_text =
        (Inr \<lparr> extraction = ls, analysis = [], negotiation = placeholder_materials,
               summary_stats = \<lparr> total_items = 0, total_billed = 0, total_expected = 0,
                                 potential_savings = 0, flagged_items = 0 \<rparr> \<rparr>,
         [ExtractionAgent, AnalysisAgent]))
   \<and> (process_medical_bill F S B ocr_text = (Inr r, called) \<and> analysis r = [] \<longrightarrow>
      negotiation r = placeholder_materials \<and> NegotiationAgent \<notin> set called
      \<and> summary_stats r = \<lparr> total_items = 0, total_billed = 0, total_expected = 0,
                              potential_savings = 0, flagged_items = 0 \<rparr>)"
  using process_no_line_items process_no_analysis_items process_empty_analysis by blast

text \<open>
  A bill whose extraction finds no line item, and a bill whose one line item the
  analysis answers with an empty list.
\<close>

theorem empty_analysis_placeholder_witness:
  "process_medical_bill ieee_double (scripted_service ''first'' ''second'')
       (two_texts (JDict [(''line_items'', JList [])]) JNull) ''scan'' =
     (Inr \<lparr> extraction = [], analysis = [], negotiation = placeholder_materials,
            summary_stats = \<lparr> total_items = 0, total_billed = 0, total_expected = 0,
                              potential_savings = 0, flagged_items = 0 \<rparr> \<rparr>,
      [ExtractionAgent])
   \<and> process_medical_bill ieee_double (scripted_service ''first'' ''second'')
       (two_texts (JDict [(''line_items'', JList [JDict [(''code'', JStr ''X'')]])])
                  (JDict [(''line_items'', JList [])])) ''scan'' =
     (Inr \<lparr> extraction = [\<lparr> code = ''X'', description = '''', quantity = 1, price = 0,
                               item_notes = JNull \<rparr>],
            analysis = [], negotiation = placeholder_materials,
            summary_stats = \<lparr> total_items = 0, total_billed = 0, total_expected = 0,
                              potential_savings = 0, flagged_items = 0 \<rparr> \<rparr>,
      [ExtractionAgent, AnalysisAgent])"
proof -
  let ?S = "scripted_service ''first'' ''second''"
  let ?B1 = "two_texts (JDict [(''line_items'', JList [])]) JNull"
  let ?B2 = "two_texts (JDict [(''line_items'', JList [JDict [(''code'', JStr ''X'')]])])
                       (JDict [(''line_items'', JList [])])"
  let ?x = "\<lparr> code = ''X'', description = '''', quantity = 1, price = 0, item_notes = JNull \<rparr>"
  have e1: "extraction_agent ?S ?B1 ''scan'' = Inr []"
    by (simp add: extraction_agent_def scripted_service_def two_texts_def extraction_parse_def
        extraction_unwrap_def has_key_def dict_get_def)
  have e2: "extraction_agent ?S ?B2 ''scan'' = Inr [?x]"
    by (simp add: extraction_agent_def scripted_service_def two_texts_def extraction_parse_def
        extraction_unwrap_def has_key_def dict_get_def normalize_line_item_def py_float_def
        py_str_def strip_def is_space_def optional_field_def py_truthy_def)
  have a2: "analysis_agent ?S ?B2 [?x] = Inr []"
    by (simp add: analysis_agent_def scripted_service_def two_texts_def analysis_parse_def
        analysis_unwrap_def has_key_def dict_get_def)
  from empty_analysis_placeholder [of ?S ?B1 "''scan''" ieee_double] e1
    empty_analysis_placeholder [of ?S ?B2 "''scan''" ieee_double "[?x]"] e2 a2
  show ?thesis by simp
qed

section \<open>Properties of the extraction selector\<close>

lemma ocr_after_error_called:
  "snd (ocr_after_error doc text_error k called) = called @ [OcrStrategy]"
  by (simp add: ocr_after_error_def split: sum.splits)




lemma strip_total_due: "strip ''  Total due 120.00  '' = ''Total due 120.00''"
  by code_simp



lemma selector_error_calls_ocr:
  assumes "text_extractor_extract doc = Inl te"
  shows "OcrStrategy \<in> set (snd (ocr_pipeline_extract doc thr))"
  using assms by (simp add: ocr_pipeline_extract_def ocr_after_error_called)

lemma selector_both_fail:
  assumes "text_extractor_extract doc = Inl te" and "ocr_extractor_extract doc 0 = Inl oe"
  shows "ocr_pipeline_extract doc thr =
     (Inl (PyExn ValueError
            (''Both text extraction and OCR failed. Text extraction error: ''
             @ message te @ ''. OCR error: '' @ message oe)),
      [TextStrategy, OcrStrategy])"
  using assms by (simp add: ocr_pipeline_extract_def ocr_after_error_def)

text \<open>
  When the text extractor returns too little text and the OCR extractor raises, the
  handler calls the OCR extractor a second time; when that raises too, the message
  reports the first OCR exception in the place of the text extraction error.
\<close>

lemma selector_short_text_ocr_fails_twice:
  assumes "text_extractor_extract doc = Inr ps"
    and "int (length (strip (concat ps))) < thr"
    and "ocr_extractor_extract doc 0 = Inl e1" and "ocr_extractor_extract doc 1 = Inl e2"
  shows "ocr_pipeline_extract doc thr =
     (Inl (PyExn ValueError
            (''Both text extraction and OCR failed. Text extraction error: ''
             @ message e1 @ ''. OCR error: '' @ message e2)),
      [TextStrategy, OcrStrategy, OcrStrategy])"
  using assms by (simp add: ocr_pipeline_extract_def ocr_after_error_def)

lemma text_page_loop_map:
  "text_page_loop ps =
     map (\<lambda>p. case p of Inl e \<Rightarrow> '''' | Inr None \<Rightarrow> '''' | Inr (Some t) \<Rightarrow> t) ps"
  by (induction ps) (auto split: sum.splits option.splits)

lemma strip_empty: "strip '''' = ''''"
  by (simp add: strip_def)

lemma ocr_page_loop_map:
  "ocr_page_loop imgs = map (\<lambda>p. case p of Inl e \<Rightarrow> '''' | Inr t \<Rightarrow> strip t) imgs"
  by (induction imgs) (auto simp: strip_empty split: sum.splits)

text \<open>
  C8. When the text extractor raises, the selector calls the OCR extractor; when that
  raises too, the selector raises one \<^verbatim>\<open>ValueError\<close> whose message holds the messages of
  both exceptions. Inside the text extractor and inside the OCR extractor, a page whose
  extraction raises gives the empty string in its place, and the other pages are
  extracted as usual: a document that opens always yields one string per page.
\<close>

theorem fallback_errors_combined_pages_kept:
  "(text_extractor_extract doc = Inl te \<longrightarrow>
      OcrStrategy \<in> set (snd (ocr_pipeline_extract doc thr)))
   \<and> (text_extractor_extract doc = Inl te \<and> ocr_extractor_extract doc 0 = Inl oe \<longrightarrow>
      ocr_pipeline_extract doc thr =
        (Inl (PyExn ValueError
               (''Both text extraction and OCR failed. Text extraction error: ''
                @ message te @ ''. OCR error: '' @ message oe)),
         [TextStrategy, OcrStrategy]))
   \<and> (pdf_pages doc = Inr ps \<longrightarrow>
      text_extractor_extract doc =
        Inr (map (\<lambda>p. case p of Inl e \<Rightarrow> '''' | Inr None \<Rightarrow> '''' | Inr (Some t) \<Rightarrow> t) ps))
   \<and> (page_images doc k = Inr imgs \<longrightarrow>
      ocr_extractor_extract doc k =
        Inr (map (\<lambda>p. case p of Inl e \<Rightarrow> '''' | Inr t \<Rightarrow> strip t) imgs))"
proof (intro conjI impI)
  assume "text_extractor_extract doc = Inl te"
  then show "OcrStrategy \<in> set (snd (ocr_pipeline_extract doc thr))"
    by (rule selector_error_calls_ocr)
next
  assume "text_extractor_extract doc = Inl te \<and> ocr_extractor_extract doc 0 = Inl oe"
  then show "ocr_pipeline_extract doc thr =
        (Inl (PyExn ValueError
               (''Both text extraction and OCR failed. Text extraction error: ''
                @ message te @ ''. OCR error: '' @ message oe)),
         [TextStrategy, OcrStrategy])"
    by (simp add: selector_both_fail)
next
  assume "pdf_pages doc = Inr ps"
  then show "text_extractor_extract doc =
        Inr (map (\<lambda>p. case p of Inl e \<Rightarrow> '''' | Inr None \<Rightarrow> '''' | Inr (Some t) \<Rightarrow> t) ps)"
    by (simp add: text_extractor_extract_def text_page_loop_map)
next
  assume "page_images doc k = Inr imgs"
  then show "ocr_extractor_extract doc k =
        Inr (map (\<lambda>p. case p of Inl e \<Rightarrow> '''' | Inr t \<Rightarrow> strip t) imgs)"
    by (simp add: ocr_extractor_extract_def ocr_page_loop_map)
qed

text \<open>
  The file neither extractor can read, and the scanned document whose second page fails
  in both extractors.
\<close>

theorem fallback_errors_combined_pages_kept_witness:
  "ocr_pipeline_extract unreadable_document min_text_threshold_default =
     (Inl (PyExn ValueError
            ''Both text extraction and OCR failed. Text extraction error: Failed to extract text from PDF: not a PDF. OCR error: no poppler''),
      [TextStrategy, OcrStrategy])
   \<and> text_extractor_extract scanned_document = Inr ['''', '''']
   \<and> ocr_extractor_extract scanned_document 0 = Inr [''Total due 120.00'', '''']
   \<and> ocr_pipeline_extract scanned_document min_text_threshold_default =
     (Inr (outcome [''Total due 120.00'', ''''] ''ocr''), [TextStrategy, OcrStrategy])"
proof -
  have t: "text_extractor_extract unreadable_document =
      Inl (PyExn ValueError ''Failed to extract text from PDF: not a PDF'')"
    by (simp add: text_extractor_extract_def unreadable_document_def)
  have o: "ocr_extractor_extract unreadable_document 0 = Inl (PyExn ValueError ''no poppler'')"
    by (simp add: ocr_extractor_extract_def unreadable_document_def)
  from fallback_errors_combined_pages_kept
    [of unreadable_document "PyExn ValueError ''Failed to extract text from PDF: not a PDF''"
        min_text_threshold_default "PyExn ValueError ''no poppler''"] t o
  have a: "ocr_pipeline_extract unreadable_document min_text_threshold_default =
     (Inl (PyExn ValueError
            ''Both text extraction and OCR failed. Text extraction error: Failed to extract text from PDF: not a PDF. OCR error: no poppler''),
      [TextStrategy, OcrStrategy])"
    by simp
  from fallback_errors_combined_pages_kept
    [of scanned_document _ _ _ "[Inr None, Inl (PyExn OtherException ''bad page'')]" 0
        "[Inr ''  Total due 120.00  '', Inl (PyExn OtherException ''ocr crashed'')]"]
  have b: "text_extractor_extract scanned_document = Inr ['''', '''']"
    and c: "ocr_extractor_extract scanned_document 0 = Inr [''Total due 120.00'', '''']"
    by (simp_all add: scanned_document_def strip_total_due)
  have d: "ocr_pipeline_extract scanned_document min_text_threshold_default =
     (Inr (outcome [''Total due 120.00'', ''''] ''ocr''), [TextStrategy, OcrStrategy])"
    using b c by (simp add: ocr_pipeline_extract_def min_text_threshold_default_def strip_def)
  from a b c d show ?thesis by simp
qed

section \<open>Properties of the debate\<close>

lemma debate_round_roles:
  assumes "debate_round A bill r (t, p) calls = (Inr (t', p'), calls')"
  shows "map role t' = map role t @ [Fighter, Hospital] \<and> length calls' = length calls + 2"
  using assms by (auto simp: debate_round_def split: sum.splits)

lemma run_debate_rejects:
  assumes "\<not> py_truthy bill \<or> \<not> is_list bill"
  shows "run_debate A max_rounds bill num_rounds =
     (Inl (PyExn ValueError ''bill_json must be a non-empty list of line items''), [])"
  using assms by (auto simp: run_debate_def)

lemma run_debate_needs_items:
  assumes "fst (run_debate A max_rounds bill num_rounds) = Inr t"
  shows "\<exists>xs. bill = JList xs \<and> xs \<noteq> []"
proof (cases "\<not> py_truthy bill \<or> \<not> is_list bill")
  case True
  from run_debate_rejects[OF this] assms show ?thesis by simp
next
  case False
  then show ?thesis by (cases bill) (auto simp: is_list_def py_truthy_def)
qed

text \<open>
  What \<^verbatim>\<open>run_debate\<close> does: a transcript has one fighter message and one hospital message
  for each of the rounds that are run, and at most three rounds are run.
\<close>

lemma run_debate_roles:
  assumes "fst (run_debate A max_rounds bill num_rounds) = Inr t"
  shows "map role t =
     concat (replicate
       (nat (min 3 (clamp_rounds (case num_rounds of Some n \<Rightarrow> n | None \<Rightarrow> max_rounds) max_rounds)))
       [Fighter, Hospital])"
proof -
  let ?n = "clamp_rounds (case num_rounds of Some n \<Rightarrow> n | None \<Rightarrow> max_rounds) max_rounds"
  have ok: "\<not> (\<not> py_truthy bill \<or> \<not> is_list bill)"
  proof
    assume "\<not> py_truthy bill \<or> \<not> is_list bill"
    from run_debate_rejects[OF this] assms show False by simp
  qed
  obtain r1 c1 where r1: "debate_round A bill 1 ([], None) [] = (r1, c1)" by (cases "debate_round A bill 1 ([], None) []")
  show ?thesis
  proof (cases r1)
    case (Inl e)
    with assms ok r1 show ?thesis by (simp add: run_debate_def Let_def)
  next
    case (Inr st1)
    obtain t1 p1 where st1: "st1 = (t1, p1)" by (cases st1)
    have m1: "map role t1 = [Fighter, Hospital]"
      using debate_round_roles[of A bill 1 "[]" None "[]" t1 p1 c1] r1 Inr st1 by simp
    show ?thesis
    proof (cases "?n \<ge> 2")
      case False
      then have h: "nat (min 3 ?n) = 1" by (simp add: clamp_rounds_def)
      have tt: "t = t1"
        using assms ok r1 Inr st1 False by (simp add: run_debate_def Let_def clamp_rounds_def)
      show ?thesis unfolding tt m1 h by simp
    next
      case two: True
      obtain r2 c2 where r2: "debate_round A bill 2 (t1, p1) c1 = (r2, c2)"
        by (cases "debate_round A bill 2 (t1, p1) c1")
      show ?thesis
      proof (cases r2)
        case (Inl e)
        with assms ok r1 \<open>r1 = Inr st1\<close> st1 two r2 show ?thesis
          by (simp add: run_debate_def Let_def clamp_rounds_def)
      next
        case inr2: (Inr st2)
        obtain t2 p2 where st2: "st2 = (t2, p2)" by (cases st2)
        have m2: "map role t2 = [Fighter, Hospital, Fighter, Hospital]"
          using debate_round_roles[of A bill 2 t1 p1 c1 t2 p2 c2] r2 inr2 st2 m1 by simp
        show ?thesis
        proof (cases "?n \<ge> 3")
          case False
          with two have h: "nat (min 3 ?n) = 2" by simp
          have tt: "t = t2"
            using assms ok r1 \<open>r1 = Inr st1\<close> st1 two r2 inr2 st2 False
            by (simp add: run_debate_def Let_def clamp_rounds_def)
          show ?thesis unfolding tt m2 h by (simp add: numeral_2_eq_2)
        next
          case three: True
          then have n3: "nat (min 3 ?n) = 3" by simp
          obtain r3 c3 where r3: "debate_round A bill 3 (t2, p2) c2 = (r3, c3)"
            by (cases "debate_round A bill 3 (t2, p2) c2")
          show ?thesis
          proof (cases r3)
            case (Inl e)
            with assms ok r1 \<open>r1 = Inr st1\<close> st1 two r2 inr2 st2 three r3 show ?thesis
              by (simp add: run_debate_def Let_def clamp_rounds_def)
          next
            case inr3: (Inr st3)
            obtain t3 p3 where st3: "st3 = (t3, p3)" by (cases st3)
            have m3: "map role t3 = [Fighter, Hospital, Fighter, Hospital, Fighter, Hospital]"
              using debate_round_roles[of A bill 3 t2 p2 c2 t3 p3 c3] r3 inr3 st3 m2 by simp
            have tt: "t = t3"
              using assms ok r1 \<open>r1 = Inr st1\<close> st1 two r2 inr2 st2 three r3 inr3 st3
              by (simp add: run_debate_def Let_def clamp_rounds_def)
            show ?thesis unfolding tt m3 n3 by (simp add: numeral_3_eq_3)
          qed
        qed
      qed
    qed
  qed
qed

text \<open>
  C1 does not hold of the code. A manager built with \<^verbatim>\<open>max_rounds=10\<close> and asked for ten
  rounds, with agents that always answer, returns six messages, where the claim asks for
  twenty: the rounds after the third are never run.
\<close>

theorem run_debate_ten_rounds_six_messages:
  "fst (run_debate talkative_agents 10 sample_bill (Some 10)) =
     Inr [\<lparr> role = Fighter, content = ''overcharged'' \<rparr>,
          \<lparr> role = Hospital, content = ''justified'' \<rparr>,
          \<lparr> role = Fighter, content = ''overcharged'' \<rparr>,
          \<lparr> role = Hospital, content = ''justified'' \<rparr>,
          \<lparr> role = Fighter, content = ''overcharged'' \<rparr>,
          \<lparr> role = Hospital, content = ''justified'' \<rparr>]
   \<and> 2 * clamp_rounds 10 10 = 20"
  by (simp add: run_debate_def debate_round_def talkative_agents_def sample_bill_def
      py_truthy_def is_list_def clamp_rounds_def Let_def)

theorem run_debate_ten_rounds_six_messages_witness:
  "length (case fst (run_debate talkative_agents 10 sample_bill (Some 10)) of
             Inr t \<Rightarrow> t | Inl e \<Rightarrow> []) = 6
   \<and> 2 * clamp_rounds 10 10 \<noteq> 6"
  using run_debate_ten_rounds_six_messages by simp

text \<open>
  C10. \<^verbatim>\<open>run_debate\<close> given an empty list, or a value that is not a list, raises the
  \<^verbatim>\<open>ValueError\<close> before any agent is called; so a transcript is only returned for a
  list that is not empty. The pipeline given a bill with no line item returns a result
  with an empty analysis collection.
\<close>

theorem run_debate_rejects_empty_bill:
  "(\<not> py_truthy bill \<or> \<not> is_list bill \<longrightarrow>
      run_debate A max_rounds bill num_rounds =
        (Inl (PyExn ValueError ''bill_json must be a non-empty list of line items''), []))
   \<and> (fst (run_debate A max_rounds bill num_rounds) = Inr t \<longrightarrow>
        (\<exists>xs. bill = JList xs \<and> xs \<noteq> []))
   \<and> (extraction_agent S B ocr_text = Inr [] \<longrightarrow>
        (\<exists>r called. process_medical_bill F S B ocr_text = (Inr r, called) \<and> analysis r = []))"
proof (intro conjI impI)
  assume "\<not> py_truthy bill \<or> \<not> is_list bill"
  then show "run_debate A max_rounds bill num_rounds =
        (Inl (PyExn ValueError ''bill_json must be a non-empty list of line items''), [])"
    by (rule run_debate_rejects)
next
  assume "fst (run_debate A max_rounds bill num_rounds) = Inr t"
  then show "\<exists>xs. bill = JList xs \<and> xs \<noteq> []"
    by (rule run_debate_needs_items)
next
  assume "extraction_agent S B ocr_text = Inr []"
  then show "\<exists>r called. process_medical_bill F S B ocr_text = (Inr r, called) \<and> analysis r = []"
    by (simp add: process_medical_bill_def)
qed

text \<open>
  The empty list, a dict and \<^verbatim>\<open>None\<close> are rejected with no call; the bill of one record
  gives a transcript after two calls.
\<close>

theorem run_debate_rejects_empty_bill_witness:
  "run_debate talkative_agents 3 (JList []) None =
     (Inl (PyExn ValueError ''bill_json must be a non-empty list of line items''), [])
   \<and> run_debate talkative_agents 3 (JDict [(''code'', JStr ''X'')]) (Some 2) =
     (Inl (PyExn ValueError ''bill_json must be a non-empty list of line items''), [])
   \<and> run_debate talkative_agents 3 JNull (Some 1) =
     (Inl (PyExn ValueError ''bill_json must be a non-empty list of line items''), [])
   \<and> run_debate talkative_agents 3 sample_bill (Some 1) =
     (Inr [\<lparr> role = Fighter, content = ''overcharged'' \<rparr>,
           \<lparr> role = Hospital, content = ''justified'' \<rparr>],
      [(Fighter, None, 1), (Hospital, Some ''overcharged'', 1)])
   \<and> sample_bill = JList [analysis_item_to_json cheap_item]"
proof -
  have s: "run_debate talkative_agents 3 sample_bill (Some 1) =
     (Inr [\<lparr> role = Fighter, content = ''overcharged'' \<rparr>,
           \<lparr> role = Hospital, content = ''justified'' \<rparr>],
      [(Fighter, None, 1), (Hospital, Some ''overcharged'', 1)])"
    by (simp add: run_debate_def debate_round_def talkative_agents_def sample_bill_def
        py_truthy_def is_list_def Let_def)
  from run_debate_rejects_empty_bill
      [where bill = "JList []" and A = talkative_agents and max_rounds = 3 and num_rounds = None
         and F = ieee_double]
    run_debate_rejects_empty_bill
      [where bill = "JDict [(''code'', JStr ''X'')]" and A = talkative_agents and max_rounds = 3
         and num_rounds = "Some 2" and F = ieee_double]
    run_debate_rejects_empty_bill
      [where bill = JNull and A = talkative_agents and max_rounds = 3 and num_rounds = "Some 1"
         and F = ieee_double]
    run_debate_rejects_empty_bill
      [where bill = sample_bill and A = talkative_agents and max_rounds = 3
         and num_rounds = "Some 1" and F = ieee_double] s
  show ?thesis
    by (simp add: py_truthy_def is_list_def sample_bill_def)
qed

end
